theory Spec2Isabelle
  imports Complex_Main
begin

section \<open>The telemetry reporter of \<^verbatim>\<open>locust_extensions/reporter.py\<close>\<close>

text \<open>
  The reporter buffers one sample per finished request, a background greenlet swaps the
  buffer out and writes it to Postgres, and the shutdown path joins that greenlet before
  it closes the run. Every greenlet runs on one thread under gevent: control changes
  hands only at a blocking call (the sleep of the flusher, the \<^verbatim>\<open>join\<close> of the quitting
  handler, a database round trip). The model below has one function per method of the
  class, and a step function whose events are the uninterrupted pieces of code between
  two such calls.
\<close>

subsection \<open>Values\<close>

text \<open>
  A \<^verbatim>\<open>datetime\<close> is a count of microseconds since the epoch (its resolution in Python).
  A Python object that the code only tests for truth and prints with \<^verbatim>\<open>repr\<close> is kept as
  those two observations. \<^verbatim>\<open>num_clients\<close> is the integer 1 or an element of
  \<^verbatim>\<open>sys.argv\<close>, a string.
\<close>

type_synonym datetime = int

datatype pyobj = PyNone | PyObj bool string

fun truthy :: "pyobj \<Rightarrow> bool" where
  "truthy PyNone = False"
| "truthy (PyObj b r) = b"

fun repr :: "pyobj \<Rightarrow> string" where
  "repr PyNone = ''None''"
| "repr (PyObj b r) = r"

datatype pyval = PyInt int | PyStr string

datatype py_error =
    KeyError string
  | AssertionError
  | IndexError
  | ParserError string
  | Psycopg2_Error string

text \<open>The dictionary built by \<^verbatim>\<open>_log_request\<close>, one field per key.\<close>

record sample =
  time :: datetime
  run_id :: datetime
  greenlet_id :: int
  loadgen :: string
  name :: string
  request_type :: string
  response_time :: real
  success :: int
  testplan :: string
  response_length :: "int option"
  exception :: "string option"

subsection \<open>The database driver and the process around the reporter\<close>

text \<open>
  psycopg2 is not part of the repository. A call on the cursor either returns or raises
  a \<^verbatim>\<open>psycopg2.Error\<close>, kept with its \<^verbatim>\<open>repr\<close>. The statements are the four the
  reporter issues.
\<close>

datatype pg_result = Pg_ok | Pg_error string

datatype stmt =
    Insert_request "sample list"
  | Insert_testrun datetime string string pyval string string
  | Insert_event datetime string
  | Update_testrun_end datetime datetime

datatype handle = Unset | Open | Closed

datatype log_entry = Log_error string | Log_info string

text \<open>
  What the process is given and cannot change: the argument vector, the environment, the
  host name, the date parser of dateutil, the outcome of \<^verbatim>\<open>psycopg2.connect\<close>, the
  outcome of the n-th statement that reaches the server, the rounding of a real number
  to a Python float, and the module constant \<^verbatim>\<open>GRAFANA_URL\<close> (read from the
  environment when the module is loaded; the import fails without it).
\<close>

record host =
  argv :: "string list"
  environ :: "string \<Rightarrow> string option"
  gethostname :: string
  parser_parse :: "string \<Rightarrow> datetime option"
  connect :: "string \<Rightarrow> pg_result"
  server :: "nat \<Rightarrow> pg_result"
  fround :: "real \<Rightarrow> real"
  GRAFANA_URL :: string

text \<open>
  The background greenlet is at the head of its loop (spawned or asleep), inside the
  blocking write of a batch it took, or dead. The quitting handler has not run, waits in
  \<^verbatim>\<open>join\<close>, or has returned.
\<close>

datatype greenlet = Not_spawned | At_loop | In_write "sample list" | Dead

datatype handler = Idle | Joining | Returned

text \<open>
  The attributes of the reporter (\<^verbatim>\<open>self._x\<close> is \<open>self_x\<close>) and the globals it touches:
  the messages given to \<^verbatim>\<open>logging\<close>, the statements that reached the server with
  their results, whether the three event handlers and the exit hook are registered, and
  whether the interpreter has run its exit hooks.
\<close>

record state =
  self_conn :: handle
  self_cur :: handle
  self_testplan :: string
  self_hostname :: string
  self_samples :: "sample list"
  self_finished :: bool
  self_background :: greenlet
  self_run_id :: datetime
  self_profile_name :: string
  self_rps :: string
  self_description :: string
  logging :: "log_entry list"
  db :: "(stmt \<times> pg_result) list"
  events_registered :: bool
  atexit_registered :: bool
  quitting_handler :: handler
  terminated :: bool

definition fresh :: state where
  "fresh = \<lparr>self_conn = Unset, self_cur = Unset, self_testplan = [], self_hostname = [],
     self_samples = [], self_finished = False, self_background = Not_spawned,
     self_run_id = 0, self_profile_name = [], self_rps = [], self_description = [],
     logging = [], db = [], events_registered = False, atexit_registered = False,
     quitting_handler = Idle, terminated = False\<rparr>"

definition logging_error :: "string \<Rightarrow> state \<Rightarrow> state" where
  "logging_error m s = s\<lparr>logging := logging s @ [Log_error m]\<rparr>"

definition logging_info :: "string \<Rightarrow> state \<Rightarrow> state" where
  "logging_info m s = s\<lparr>logging := logging s @ [Log_info m]\<rparr>"

text \<open>
  \<^verbatim>\<open>cursor.execute\<close> and \<^verbatim>\<open>cursor.executemany\<close>: on an open cursor the statement goes
  to the server, whose answer is the result; a closed cursor raises
  \<^verbatim>\<open>psycopg2.InterfaceError\<close>, a \<^verbatim>\<open>psycopg2.Error\<close>, and sends nothing.
\<close>

definition interface_error :: string where
  "interface_error = ''InterfaceError(cursor already closed)''"

definition cur_execute :: "host \<Rightarrow> stmt \<Rightarrow> state \<Rightarrow> pg_result \<times> state" where
  "cur_execute h q s =
     (if self_cur s = Open \<and> self_conn s = Open then
        (let r = server h (length (db s)) in (r, s\<lparr>db := db s @ [(q, r)]\<rparr>))
      else (Pg_error interface_error, s))"

text \<open>\<^verbatim>\<open>close\<close> on the cursor and on the connection; closing a closed handle changes nothing.\<close>

definition close_handles :: "state \<Rightarrow> state" where
  "close_handles s = s\<lparr>self_cur := Closed, self_conn := Closed\<rparr>"

subsection \<open>The role of the process\<close>

definition is_slave :: "host \<Rightarrow> bool" where
  "is_slave h = (''--slave'' \<in> set (argv h))"

definition is_master :: "host \<Rightarrow> bool" where
  "is_master h = (''--master'' \<in> set (argv h))"

subsection \<open>Samples\<close>

text \<open>
  \<^verbatim>\<open>_log_request\<close>: \<open>ident\<close> is the \<^verbatim>\<open>minimal_ident\<close> of the current greenlet when it has
  one. The timestamp is kept as the datetime, not as its ISO text.
\<close>

definition new_sample ::
  "datetime \<Rightarrow> int option \<Rightarrow> string \<Rightarrow> string \<Rightarrow> real \<Rightarrow> int \<Rightarrow> int \<Rightarrow> pyobj \<Rightarrow> state \<Rightarrow> sample" where
  "new_sample now ident rtype nm rtime rlength succ exc s =
     \<lparr>time = now,
      run_id = self_run_id s,
      greenlet_id = (case ident of Some i \<Rightarrow> i | None \<Rightarrow> - 1),
      loadgen = self_hostname s,
      name = nm,
      request_type = rtype,
      response_time = rtime,
      success = succ,
      testplan = self_testplan s,
      response_length = (if rlength \<ge> 0 then Some rlength else None),
      exception = (if truthy exc then Some (repr exc) else None)\<rparr>"

definition log_request ::
  "datetime \<Rightarrow> int option \<Rightarrow> string \<Rightarrow> string \<Rightarrow> real \<Rightarrow> int \<Rightarrow> int \<Rightarrow> pyobj \<Rightarrow> state \<Rightarrow> state" where
  "log_request now ident rtype nm rtime rlength succ exc s =
     s\<lparr>self_samples := self_samples s @ [new_sample now ident rtype nm rtime rlength succ exc s]\<rparr>"

definition request_success ::
  "datetime \<Rightarrow> int option \<Rightarrow> string \<Rightarrow> string \<Rightarrow> real \<Rightarrow> int \<Rightarrow> state \<Rightarrow> state" where
  "request_success now ident rtype nm rtime rlength s =
     log_request now ident rtype nm rtime rlength 1 PyNone s"

definition request_failure ::
  "datetime \<Rightarrow> int option \<Rightarrow> string \<Rightarrow> string \<Rightarrow> real \<Rightarrow> pyobj \<Rightarrow> state \<Rightarrow> state" where
  "request_failure now ident rtype nm rtime exc s =
     log_request now ident rtype nm rtime (- 1) 0 exc s"

subsection \<open>The flusher\<close>

text \<open>
  \<^verbatim>\<open>write_samples_to_db\<close>: a \<^verbatim>\<open>psycopg2.Error\<close> is caught and logged; nothing is done
  with the batch afterwards.
\<close>

definition write_samples_to_db :: "host \<Rightarrow> sample list \<Rightarrow> state \<Rightarrow> state" where
  "write_samples_to_db h samples s =
     (case cur_execute h (Insert_request samples) s of
        (Pg_ok, s') \<Rightarrow> s'
      | (Pg_error e, s') \<Rightarrow>
          logging_error (''Failed to write samples to Postgresql timescale database: '' @ e) s')"

text \<open>
  The two assignments of \<^verbatim>\<open>_run\<close> that take the buffer: the batch is the list the
  attribute held, and the attribute is a new empty list.
\<close>

definition drain :: "state \<Rightarrow> sample list \<times> state" where
  "drain s = (self_samples s, s\<lparr>self_samples := []\<rparr>)"

text \<open>
  One resumption of the greenlet that runs \<^verbatim>\<open>_run\<close>. At the head of the loop it tests
  the buffer: a non-empty buffer is drained and the write begins (the greenlet blocks in
  it); an empty buffer ends the loop when \<^verbatim>\<open>_finished\<close> is set, and otherwise the
  greenlet sleeps again. Resumed inside a write, it finishes the write and sleeps. A dead
  greenlet is never resumed.
\<close>

definition flusher_resume :: "host \<Rightarrow> state \<Rightarrow> state option" where
  "flusher_resume h s =
     (case self_background s of
        At_loop \<Rightarrow>
          (if self_samples s \<noteq> [] then
             (case drain s of (samples_buffer, s') \<Rightarrow>
                Some (s'\<lparr>self_background := In_write samples_buffer\<rparr>))
           else if self_finished s then Some (s\<lparr>self_background := Dead\<rparr>)
           else Some s)
      | In_write samples_buffer \<Rightarrow>
          Some ((write_samples_to_db h samples_buffer s)\<lparr>self_background := At_loop\<rparr>)
      | Not_spawned \<Rightarrow> None
      | Dead \<Rightarrow> None)"

subsection \<open>Run records\<close>

text \<open>
  The loop of \<^verbatim>\<open>log_start_testrun\<close> over \<^verbatim>\<open>enumerate(sys.argv)\<close>: \<open>rest\<close> is what
  is left to visit and \<open>index\<close> the position of its head. Reading past the end of the
  list raises \<^verbatim>\<open>IndexError\<close>.
\<close>

fun scan_argv :: "string list \<Rightarrow> string list \<Rightarrow> nat \<Rightarrow> pyval \<Rightarrow> py_error + pyval" where
  "scan_argv args [] index num_clients = Inr num_clients"
| "scan_argv args (arg # rest) index num_clients =
     (if arg = ''-c'' then
        (if index + 1 < length args
         then scan_argv args rest (index + 1) (PyStr (args ! (index + 1)))
         else Inl IndexError)
      else scan_argv args rest (index + 1) num_clients)"

definition num_clients_of :: "string list \<Rightarrow> py_error + pyval" where
  "num_clients_of args = scan_argv args args 0 (PyInt 1)"

text \<open>
  \<^verbatim>\<open>log_start_testrun\<close>: neither statement is guarded, so a failure leaves the method
  (and the constructor) at once.
\<close>

definition log_start_testrun :: "host \<Rightarrow> datetime \<Rightarrow> state \<Rightarrow> py_error option \<times> state" where
  "log_start_testrun h now s =
     (case num_clients_of (argv h) of
        Inl e \<Rightarrow> (Some e, s)
      | Inr num_clients \<Rightarrow>
          (case cur_execute h
                  (Insert_testrun (self_run_id s) (self_testplan s) (self_profile_name s)
                     num_clients (self_rps s) (self_description s)) s of
             (Pg_error e, s1) \<Rightarrow> (Some (Psycopg2_Error e), s1)
           | (Pg_ok, s1) \<Rightarrow>
               (case cur_execute h (Insert_event now (self_testplan s @ '' started'')) s1 of
                  (Pg_error e, s2) \<Rightarrow> (Some (Psycopg2_Error e), s2)
                | (Pg_ok, s2) \<Rightarrow> (None, s2))))"

text \<open>Decimal text of an integer, as \<^verbatim>\<open>str\<close> and an f-string print it.\<close>

definition digit_char :: "nat \<Rightarrow> char" where
  "digit_char d = ''0123456789'' ! d"

function str_nat :: "nat \<Rightarrow> string" where
  "str_nat n = (if n < 10 then [digit_char n] else str_nat (n div 10) @ [digit_char (n mod 10)])"
  by pat_completeness auto
termination
  by (relation "measure (\<lambda>n. n)") auto

declare str_nat.simps [simp del]

definition str_int :: "int \<Rightarrow> string" where
  "str_int i = (if i < 0 then CHR ''-'' # str_nat (nat (- i)) else str_nat (nat i))"

text \<open>
  Python floats: \<^verbatim>\<open>datetime.timestamp()\<close> divides the microseconds by a million, and
  every float operation is the exact one followed by the rounding of the host.
  \<^verbatim>\<open>int\<close> of a float drops the fraction (towards zero).
\<close>

definition timestamp :: "host \<Rightarrow> datetime \<Rightarrow> real" where
  "timestamp h d = fround h (real_of_int d / 1000000)"

definition py_int :: "real \<Rightarrow> int" where
  "py_int x = (if 0 \<le> x then \<lfloor>x\<rfloor> else \<lceil>x\<rceil>)"

definition from_ms :: "host \<Rightarrow> datetime \<Rightarrow> int" where
  "from_ms h rid = py_int (fround h (timestamp h rid * 1000))"

definition to_ms :: "host \<Rightarrow> datetime \<Rightarrow> int" where
  "to_ms h end_time = py_int (fround h (fround h (timestamp h end_time + 1) * 1000))"

definition report :: "host \<Rightarrow> string \<Rightarrow> datetime \<Rightarrow> datetime \<Rightarrow> string" where
  "report h plan rid end_time =
     ''Report: '' @ GRAFANA_URL h @ ''&var-testplan='' @ plan
       @ ''&from='' @ str_int (from_ms h rid)
       @ ''&to='' @ str_int (to_ms h end_time) @ [CHR 0x0A]"

definition stop_failed :: string where
  "stop_failed = ''Failed to update testrun record (or events) with end time to Postgresql timescale database: ''"

text \<open>
  \<^verbatim>\<open>log_stop_test_run\<close>: the two statements stand in one \<^verbatim>\<open>try\<close>, so the second is
  skipped when the first raises; the report line is logged after it either way.
\<close>

definition log_stop_test_run :: "host \<Rightarrow> datetime \<Rightarrow> state \<Rightarrow> state" where
  "log_stop_test_run h end_time s =
     (let s' =
        (case cur_execute h (Update_testrun_end end_time (self_run_id s)) s of
           (Pg_error e, s1) \<Rightarrow> logging_error (stop_failed @ e) s1
         | (Pg_ok, s1) \<Rightarrow>
             (case cur_execute h (Insert_event end_time (self_testplan s @ '' finished'')) s1 of
                (Pg_error e, s2) \<Rightarrow> logging_error (stop_failed @ e) s2
              | (Pg_ok, s2) \<Rightarrow> s2))
      in logging_info (report h (self_testplan s) (self_run_id s) end_time) s')"

text \<open>
  \<^verbatim>\<open>exit\<close>. A connection object is true whatever its state, so the test of
  \<^verbatim>\<open>self._conn\<close> only asks whether the attribute was set.
\<close>

definition exit :: "host \<Rightarrow> datetime \<Rightarrow> state \<Rightarrow> state" where
  "exit h end_time s =
     (let s' = (if \<not> is_slave h then log_stop_test_run h end_time s else s)
      in if self_conn s' \<noteq> Unset then close_handles s' else s')"

subsection \<open>Construction\<close>

definition connect_failed :: string where
  "connect_failed = ''Use standard postgres env vars to specify where to report locust samples (https://www.postgresql.org/docs/11/libpq-envars.html)''"

text \<open>The run id: read from \<^verbatim>\<open>LOCUST_RUN_ID\<close> under a swarm, the clock otherwise.\<close>

definition new_run_id :: "host \<Rightarrow> datetime \<Rightarrow> py_error + datetime" where
  "new_run_id h now =
     (if is_slave h \<or> is_master h then
        (case environ h ''LOCUST_RUN_ID'' of
           None \<Rightarrow> Inl (KeyError ''LOCUST_RUN_ID'')
         | Some text \<Rightarrow>
             (case parser_parse h text of
                None \<Rightarrow> Inl (ParserError text)
              | Some d \<Rightarrow> Inr d))
      else Inr now)"

text \<open>
  \<^verbatim>\<open>__init__\<close>, in the order of its statements; \<open>now\<close> and \<open>now'\<close> are the two readings
  of the clock it may take (the run id, the start event). The result is the exception
  that left the constructor, if one did, and the state at that point.
\<close>

definition init ::
  "host \<Rightarrow> string \<Rightarrow> string \<Rightarrow> string \<Rightarrow> datetime \<Rightarrow> datetime \<Rightarrow> state \<Rightarrow> py_error option \<times> state" where
  "init h plan profile_name description now now' s =
     (case environ h ''PGHOST'' of
        None \<Rightarrow> (Some (KeyError ''PGHOST''), logging_error connect_failed s)
      | Some pghost \<Rightarrow>
          (case connect h pghost of
             Pg_error e \<Rightarrow> (Some (Psycopg2_Error e), logging_error connect_failed s)
           | Pg_ok \<Rightarrow>
               (let s1 = s\<lparr>self_conn := Open, self_cur := Open\<rparr> in
                if plan = [] then (Some AssertionError, s1)
                else
                  (let s2 = s1\<lparr>self_testplan := plan, self_hostname := gethostname h,
                               self_samples := [], self_finished := False,
                               self_background := At_loop\<rparr> in
                   (case new_run_id h now of
                      Inl e \<Rightarrow> (Some e, s2)
                    | Inr rid \<Rightarrow>
                        (let s3 = s2\<lparr>self_run_id := rid, self_profile_name := profile_name,
                                     self_rps := (case environ h ''LOCUST_RPS'' of
                                                    None \<Rightarrow> ''0'' | Some v \<Rightarrow> v),
                                     self_description := description\<rparr> in
                         (case (if \<not> is_slave h then log_start_testrun h now' s3
                                else (None, s3)) of
                            (Some e, s4) \<Rightarrow> (Some e, s4)
                          | (None, s4) \<Rightarrow>
                              (None, s4\<lparr>events_registered := True,
                                         atexit_registered := True\<rparr>))))))))"

subsection \<open>Shutdown and the scheduler\<close>

text \<open>
  \<^verbatim>\<open>quitting\<close> up to its \<^verbatim>\<open>join\<close>, where the handler blocks, and from the return of
  \<^verbatim>\<open>join\<close> on. \<^verbatim>\<open>atexit._clear()\<close> drops every exit hook.
\<close>

definition quitting_to_join :: "state \<Rightarrow> state" where
  "quitting_to_join s = s\<lparr>self_finished := True, atexit_registered := False,
                           quitting_handler := Joining\<rparr>"

definition quitting_from_join :: "host \<Rightarrow> datetime \<Rightarrow> state \<Rightarrow> state" where
  "quitting_from_join h end_time s = (exit h end_time s)\<lparr>quitting_handler := Returned\<rparr>"

text \<open>
  The pieces of code that run without interruption, as events. A request event is a
  notification of locust to a registered handler, with the reading of the clock and the
  identity of the greenlet that sent it. \<open>Quitting\<close> is the one quitting notification of
  a process; \<open>Join_return\<close> is the return of \<^verbatim>\<open>join\<close>, which gevent grants once the
  background greenlet is dead; \<open>At_exit\<close> is the interpreter running a registered exit
  hook, after which nothing runs.
\<close>

datatype event =
    Success datetime "int option" string string real int
  | Failure datetime "int option" string string real pyobj
  | Flusher_resume
  | Quitting
  | Join_return datetime
  | At_exit datetime

definition step :: "host \<Rightarrow> event \<Rightarrow> state \<Rightarrow> state option" where
  "step h e s =
     (if terminated s then None
      else (case e of
          Success now ident rtype nm rtime rlength \<Rightarrow>
            (if events_registered s
             then Some (request_success now ident rtype nm rtime rlength s) else None)
        | Failure now ident rtype nm rtime exc \<Rightarrow>
            (if events_registered s
             then Some (request_failure now ident rtype nm rtime exc s) else None)
        | Flusher_resume \<Rightarrow> flusher_resume h s
        | Quitting \<Rightarrow>
            (if events_registered s \<and> quitting_handler s = Idle
             then Some (quitting_to_join s) else None)
        | Join_return end_time \<Rightarrow>
            (if quitting_handler s = Joining \<and> self_background s = Dead
             then Some (quitting_from_join h end_time s) else None)
        | At_exit end_time \<Rightarrow>
            (if atexit_registered s
             then Some ((exit h end_time s)\<lparr>terminated := True\<rparr>) else None)))"

fun run :: "host \<Rightarrow> event list \<Rightarrow> state \<Rightarrow> state option" where
  "run h [] s = Some s"
| "run h (e # es) s = (case step h e s of None \<Rightarrow> None | Some s' \<Rightarrow> run h es s')"

subsection \<open>What a run lets one observe\<close>

text \<open>
  The agreement the data model asks of a sample: no length exactly on a failure, no
  exception text exactly on a success. The handlers pass 1 and 0 for \<^verbatim>\<open>success\<close>.
\<close>

definition null_fields_agree :: "sample \<Rightarrow> bool" where
  "null_fields_agree x =
     ((response_length x = None) = (success x = 0) \<and> (exception x = None) = (success x = 1))"

text \<open>The sample a request event appends, and the batch a resumption of the flusher takes.\<close>

fun sample_of :: "event \<Rightarrow> state \<Rightarrow> sample list" where
  "sample_of (Success now ident rtype nm rtime rlength) s =
     [new_sample now ident rtype nm rtime rlength 1 PyNone s]"
| "sample_of (Failure now ident rtype nm rtime exc) s =
     [new_sample now ident rtype nm rtime (- 1) 0 exc s]"
| "sample_of e s = []"

definition taken :: "event \<Rightarrow> state \<Rightarrow> sample list list" where
  "taken e s =
     (if e = Flusher_resume \<and> self_background s = At_loop \<and> self_samples s \<noteq> []
      then [fst (drain s)] else [])"

fun appends :: "host \<Rightarrow> event list \<Rightarrow> state \<Rightarrow> sample list" where
  "appends h [] s = []"
| "appends h (e # es) s =
     (case step h e s of None \<Rightarrow> [] | Some s' \<Rightarrow> sample_of e s @ appends h es s')"

fun batches :: "host \<Rightarrow> event list \<Rightarrow> state \<Rightarrow> sample list list" where
  "batches h [] s = []"
| "batches h (e # es) s =
     (case step h e s of None \<Rightarrow> [] | Some s' \<Rightarrow> taken e s @ batches h es s')"

text \<open>The run-start and run-end statements among those the server received.\<close>

fun is_run_start :: "stmt \<Rightarrow> bool" where
  "is_run_start (Insert_testrun rid plan pn n rps d) = True"
| "is_run_start q = False"

fun is_run_end :: "stmt \<Rightarrow> bool" where
  "is_run_end (Update_testrun_end t rid) = True"
| "is_run_end q = False"

definition run_start_writes :: "state \<Rightarrow> nat" where
  "run_start_writes s = length (filter (\<lambda>w. is_run_start (fst w)) (db s))"

definition run_end_writes :: "state \<Rightarrow> nat" where
  "run_end_writes s = length (filter (\<lambda>w. is_run_end (fst w)) (db s))"

fun is_exit_event :: "event \<Rightarrow> bool" where
  "is_exit_event (Join_return t) = True"
| "is_exit_event (At_exit t) = True"
| "is_exit_event e = False"

subsection \<open>Three processes to compute with\<close>

definition standalone :: host where
  "standalone = \<lparr>argv = [''locust'', ''-f'', ''plan.py'', ''-c'', ''20''],
     environ = [''PGHOST'' \<mapsto> ''db'', ''LOCUST_RUN_ID'' \<mapsto> ''run5''],
     gethostname = ''gen1'',
     parser_parse = (\<lambda>t. if t = ''run5'' then Some 5000000 else None),
     connect = (\<lambda>p. Pg_ok), server = (\<lambda>n. Pg_ok), fround = (\<lambda>x. x),
     GRAFANA_URL = ''http://g/d?o=1''\<rparr>"

definition master :: host where
  "master = standalone\<lparr>argv := [''locust'', ''--master'']\<rparr>"

definition slave :: host where
  "slave = standalone\<lparr>argv := [''locust'', ''--slave'']\<rparr>"

text \<open>
  A reporter built by the standalone process, and two runs of it: requests from two
  greenlets around two drains, and a shutdown through the quitting notification.
\<close>

definition started :: state where
  "started = snd (init standalone ''plan'' [] [] 7000000 7000001 fresh)"

definition sample_a :: sample where
  "sample_a = new_sample 10 (Some 1) ''GET'' ''/a'' 3 150 1 PyNone started"

definition sample_b :: sample where
  "sample_b = new_sample 11 (Some 2) ''GET'' ''/b'' 4 (- 1) 0 (PyObj True ''E()'') started"

definition sample_c :: sample where
  "sample_c = new_sample 12 (Some 1) ''GET'' ''/c'' 5 7 1 PyNone started"

definition two_drains :: "event list" where
  "two_drains = [Success 10 (Some 1) ''GET'' ''/a'' 3 150,
                 Failure 11 (Some 2) ''GET'' ''/b'' 4 (PyObj True ''E()''),
                 Flusher_resume,
                 Success 12 (Some 1) ''GET'' ''/c'' 5 7,
                 Flusher_resume,
                 Flusher_resume,
                 Flusher_resume]"

definition shutdown :: "event list" where
  "shutdown = [Success 10 (Some 1) ''GET'' ''/a'' 3 150,
               Quitting,
               Flusher_resume,
               Flusher_resume,
               Flusher_resume]"

text \<open>
  A server that refuses its third statement, and the reporter of \<open>started\<close> with a batch
  in the write and a later sample in the buffer.
\<close>

definition flaky :: host where
  "flaky = standalone\<lparr>server := (\<lambda>n. if n = 2 then Pg_error ''OperationalError()'' else Pg_ok)\<rparr>"

definition in_write :: state where
  "in_write = started\<lparr>self_samples := [sample_c], self_background := In_write [sample_a]\<rparr>"

text \<open>
  The exit sequence has been called when the quitting handler has returned or the
  interpreter has run its exit hooks. Until then a reporter keeps its connection open and
  has sent no run-end statement; from then on the connection is closed and a coordinator
  has sent one.
\<close>

definition exit_called :: "state \<Rightarrow> bool" where
  "exit_called s = (quitting_handler s = Returned \<or> terminated s)"

definition lifecycle_inv :: "host \<Rightarrow> state \<Rightarrow> bool" where
  "lifecycle_inv h s =
     ((atexit_registered s \<longrightarrow> quitting_handler s = Idle)
      \<and> (if exit_called s
          then self_conn s = Closed \<and> self_cur s = Closed
               \<and> run_end_writes s = (if is_slave h then 0 else 1)
          else self_conn s = Open \<and> self_cur s = Open \<and> run_end_writes s = 0))"

section \<open>Properties\<close>

subsection \<open>The argument scan\<close>

lemma scan_argv_absent:
  "''-c'' \<notin> set rest \<Longrightarrow> scan_argv args rest i n = Inr n"
  by (induction rest arbitrary: i n) auto

lemma scan_argv_last:
  "args = seen @ rest \<Longrightarrow> i = length seen \<Longrightarrow> rest \<noteq> [] \<Longrightarrow> last rest = ''-c'' \<Longrightarrow>
   scan_argv args rest i n = Inl IndexError"
proof (induction rest arbitrary: i n seen)
  case Nil
  then show ?case by simp
next
  case (Cons a rest)
  show ?case
  proof (cases "rest = []")
    case True
    with Cons.prems show ?thesis by simp
  next
    case False
    with Cons.prems have l: "last rest = ''-c''" by simp
    have a: "args = (seen @ [a]) @ rest" using Cons.prems by simp
    have b: "i + 1 = length (seen @ [a])" using Cons.prems by simp
    have lt: "i + 1 < length args" using Cons.prems False by (cases rest) auto
    from Cons.IH[OF a b False l] lt show ?thesis by simp
  qed
qed

lemma scan_argv_value:
  "args = seen @ rest \<Longrightarrow> i = length seen \<Longrightarrow> rest = pre @ ''-c'' # v # post \<Longrightarrow>
   ''-c'' \<notin> set (v # post) \<Longrightarrow> scan_argv args rest i n = Inr (PyStr v)"
proof (induction pre arbitrary: i n seen rest)
  case Nil
  then have "args ! (i + 1) = v" by (simp add: nth_append)
  moreover have "i + 1 < length args" using Nil by simp
  moreover have "scan_argv args (v # post) (i + 1) (PyStr v) = Inr (PyStr v)"
    using Nil.prems(4) by (intro scan_argv_absent)
  ultimately show ?case using Nil by simp
next
  case (Cons a pre)
  have a: "args = (seen @ [a]) @ (pre @ ''-c'' # v # post)" using Cons.prems by simp
  have b: "i + 1 = length (seen @ [a])" using Cons.prems by simp
  have lt: "i + 1 < length args" using Cons.prems by simp
  note IH = Cons.IH[OF a b refl Cons.prems(4)]
  show ?case using Cons.prems(3) IH lt by simp
qed

lemma scan_argv_error: "scan_argv args rest i n = Inl e \<Longrightarrow> e = IndexError"
  by (induction rest arbitrary: i n) (auto split: if_splits)

lemma num_clients_of_error: "num_clients_of args = Inl e \<Longrightarrow> e = IndexError"
  unfolding num_clients_of_def by (rule scan_argv_error)

subsection \<open>Samples and their null fields\<close>

text \<open>
  C2, as the code has it. The sample that \<^verbatim>\<open>request_success\<close> appends satisfies the
  agreement of the data model exactly when the notified response length is not negative
  (a negative length is stored as null although the sample is a success), and the sample
  that \<^verbatim>\<open>request_failure\<close> appends satisfies it exactly when the notified exception is
  true in a boolean test (a false one is stored as null although the sample is a
  failure). In those cases a success carries the length it was given and no exception,
  and a failure carries no length and the \<^verbatim>\<open>repr\<close> of its exception.
\<close>

theorem sample_null_fields:
  "self_samples (request_success now ident rtype nm rtime rlength s)
     = self_samples s @ [new_sample now ident rtype nm rtime rlength 1 PyNone s]
   \<and> self_samples (request_failure now ident rtype nm rtime exc s)
     = self_samples s @ [new_sample now ident rtype nm rtime (- 1) 0 exc s]
   \<and> null_fields_agree (new_sample now ident rtype nm rtime rlength 1 PyNone s) = (0 \<le> rlength)
   \<and> null_fields_agree (new_sample now ident rtype nm rtime (- 1) 0 exc s) = truthy exc
   \<and> success (new_sample now ident rtype nm rtime rlength 1 PyNone s) = 1
   \<and> exception (new_sample now ident rtype nm rtime rlength 1 PyNone s) = None
   \<and> (0 \<le> rlength \<longrightarrow>
        response_length (new_sample now ident rtype nm rtime rlength 1 PyNone s) = Some rlength)
   \<and> success (new_sample now ident rtype nm rtime (- 1) 0 exc s) = 0
   \<and> response_length (new_sample now ident rtype nm rtime (- 1) 0 exc s) = None
   \<and> (truthy exc \<longrightarrow>
        exception (new_sample now ident rtype nm rtime (- 1) 0 exc s) = Some (repr exc))"
  by (simp add: null_fields_agree_def request_success_def request_failure_def log_request_def
      new_sample_def)

theorem sample_null_fields_witness:
  "null_fields_agree (new_sample 3 (Some 4) ''GET'' ''/'' 12 150 1 PyNone fresh)
   \<and> response_length (new_sample 3 (Some 4) ''GET'' ''/'' 12 150 1 PyNone fresh) = Some 150
   \<and> null_fields_agree (new_sample 3 (Some 4) ''GET'' ''/'' 12 (- 1) 0 (PyObj True ''E()'') fresh)
   \<and> exception (new_sample 3 (Some 4) ''GET'' ''/'' 12 (- 1) 0 (PyObj True ''E()'') fresh)
       = Some ''E()''"
  using sample_null_fields [of 3 "Some 4" "''GET''" "''/''" 12 150 fresh "PyObj True ''E()''"]
  by simp

text \<open>
  The claim as stated fails twice: a success notified with the length -1, and a
  failure notified with an exception object that is false.
\<close>

theorem sample_null_fields_counterexample:
  "\<not> null_fields_agree (last (self_samples (request_success 0 None ''GET'' ''/'' 1 (- 1) fresh)))
   \<and> \<not> null_fields_agree
        (last (self_samples (request_failure 0 None ''GET'' ''/'' 1 (PyObj False ''E()'') fresh)))"
  by (simp add: null_fields_agree_def request_success_def request_failure_def log_request_def
      new_sample_def)

subsection \<open>Construction\<close>

lemma new_run_id_cases:
  "new_run_id h now = Inr rid \<Longrightarrow>
     (if is_slave h \<or> is_master h
      then (\<exists>text. environ h ''LOCUST_RUN_ID'' = Some text \<and> parser_parse h text = Some rid)
      else rid = now)"
  by (auto simp: new_run_id_def split: option.splits if_splits)

lemma init_run_id:
  "init h plan pn d now now' s = (None, s') \<Longrightarrow> new_run_id h now = Inr (self_run_id s')"
  unfolding init_def
  by (auto simp: Let_def log_start_testrun_def cur_execute_def
      split: option.splits pg_result.splits if_splits sum.splits prod.splits)

text \<open>
  C3, as the code has it. After a construction that succeeded, the run id of a process
  started with \<^verbatim>\<open>--slave\<close> or with \<^verbatim>\<open>--master\<close> is what the date parser made of
  \<^verbatim>\<open>LOCUST_RUN_ID\<close>; only a process with neither flag takes the reading of the clock.
\<close>

theorem run_id_source:
  "init h plan pn d now now' s = (None, s') \<Longrightarrow>
     (is_slave h \<or> is_master h \<longrightarrow>
        (\<exists>text. environ h ''LOCUST_RUN_ID'' = Some text
           \<and> parser_parse h text = Some (self_run_id s')))
     \<and> (\<not> is_slave h \<and> \<not> is_master h \<longrightarrow> self_run_id s' = now)"
  using new_run_id_cases [OF init_run_id] by (auto split: if_splits)

lemma init_master_value:
  "init master ''plan'' [] [] 7000000 7000001 fresh =
     (None, fresh\<lparr>self_conn := Open, self_cur := Open, self_testplan := ''plan'',
        self_hostname := ''gen1'', self_background := At_loop, self_run_id := 5000000,
        self_rps := ''0'',
        db := [(Insert_testrun 5000000 ''plan'' [] (PyInt 1) ''0'' [], Pg_ok),
               (Insert_event 7000001 ''plan started'', Pg_ok)],
        events_registered := True, atexit_registered := True\<rparr>)"
  by (simp add: init_def master_def standalone_def fresh_def new_run_id_def is_slave_def
      is_master_def log_start_testrun_def cur_execute_def num_clients_of_def Let_def)

lemma init_standalone_value:
  "init standalone ''plan'' [] [] 7000000 7000001 fresh =
     (None, fresh\<lparr>self_conn := Open, self_cur := Open, self_testplan := ''plan'',
        self_hostname := ''gen1'', self_background := At_loop, self_run_id := 7000000,
        self_rps := ''0'',
        db := [(Insert_testrun 7000000 ''plan'' [] (PyStr ''20'') ''0'' [], Pg_ok),
               (Insert_event 7000001 ''plan started'', Pg_ok)],
        events_registered := True, atexit_registered := True\<rparr>)"
  by (simp add: init_def standalone_def fresh_def new_run_id_def is_slave_def
      is_master_def log_start_testrun_def cur_execute_def num_clients_of_def Let_def)

lemma init_slave_value:
  "init slave ''plan'' [] [] 7000000 7000001 fresh =
     (None, fresh\<lparr>self_conn := Open, self_cur := Open, self_testplan := ''plan'',
        self_hostname := ''gen1'', self_background := At_loop, self_run_id := 5000000,
        self_rps := ''0'', events_registered := True, atexit_registered := True\<rparr>)"
  by (simp add: init_def slave_def standalone_def fresh_def new_run_id_def is_slave_def
      is_master_def Let_def)

theorem run_id_source_witness:
  "fst (init slave ''plan'' [] [] 7000000 7000001 fresh) = None
   \<and> is_slave slave
   \<and> environ slave ''LOCUST_RUN_ID'' = Some ''run5''
   \<and> parser_parse slave ''run5''
       = Some (self_run_id (snd (init slave ''plan'' [] [] 7000000 7000001 fresh)))
   \<and> fst (init standalone ''plan'' [] [] 7000000 7000001 fresh) = None
   \<and> \<not> is_slave standalone \<and> \<not> is_master standalone
   \<and> self_run_id (snd (init standalone ''plan'' [] [] 7000000 7000001 fresh)) = 7000000"
  using run_id_source [OF init_slave_value] run_id_source [OF init_standalone_value]
  by (simp add: init_slave_value init_standalone_value)
     (simp add: slave_def standalone_def is_slave_def is_master_def fresh_def)

text \<open>
  The claim as stated fails for the leader of a swarm: it is a coordinator, and its run
  id is the parsed \<^verbatim>\<open>LOCUST_RUN_ID\<close>, not the clock.
\<close>

theorem run_id_source_counterexample:
  "fst (init master ''plan'' [] [] 7000000 7000001 fresh) = None
   \<and> \<not> is_slave master
   \<and> self_run_id (snd (init master ''plan'' [] [] 7000000 7000001 fresh)) \<noteq> 7000000"
  by (simp add: init_master_value)
     (simp add: master_def standalone_def is_slave_def fresh_def)

text \<open>
  C9. Once the connection is open, a construction with the empty test plan leaves by
  the assertion, in the state it was given but for the open connection and cursor: no
  handler is registered and nothing was sent to the server. A construction with the empty
  plan never succeeds, and one with a non-empty plan never fails by the assertion.
\<close>

theorem empty_testplan_asserts:
  "(environ h ''PGHOST'' = Some p \<and> connect h p = Pg_ok \<longrightarrow>
      init h [] pn d now now' s = (Some AssertionError, s\<lparr>self_conn := Open, self_cur := Open\<rparr>)
      \<and> events_registered (snd (init h [] pn d now now' s)) = events_registered s
      \<and> atexit_registered (snd (init h [] pn d now now' s)) = atexit_registered s
      \<and> db (snd (init h [] pn d now now' s)) = db s)
   \<and> fst (init h [] pn d now now' s) \<noteq> None
   \<and> (plan \<noteq> [] \<longrightarrow> fst (init h plan pn d now now' s) \<noteq> Some AssertionError)"
  unfolding init_def
  by (auto simp: Let_def log_start_testrun_def cur_execute_def new_run_id_def
      split: option.splits pg_result.splits if_splits sum.splits prod.splits
      dest: num_clients_of_error)

theorem empty_testplan_asserts_witness:
  "environ standalone ''PGHOST'' = Some ''db'' \<and> connect standalone ''db'' = Pg_ok
   \<and> init standalone [] [] [] 7 8 fresh
       = (Some AssertionError, fresh\<lparr>self_conn := Open, self_cur := Open\<rparr>)
   \<and> ''plan'' \<noteq> [] \<and> fst (init standalone ''plan'' [] [] 7 8 fresh) \<noteq> Some AssertionError"
  using empty_testplan_asserts [of standalone "''db''" "[]" "[]" 7 8 fresh "''plan''"]
  by (simp add: standalone_def)

subsection \<open>The run-start record\<close>

text \<open>
  C10. The client count of the run-start record is the integer 1 when \<^verbatim>\<open>-c\<close> is not
  among the arguments, and otherwise the argument after the last \<^verbatim>\<open>-c\<close>, as the string
  it is, whatever it holds. When the last argument is \<^verbatim>\<open>-c\<close> the scan raises
  \<^verbatim>\<open>IndexError\<close> and \<^verbatim>\<open>log_start_testrun\<close> leaves with it before it sends anything.
  On an open cursor the count that the scan returns is the one of the first statement
  sent.
\<close>

theorem client_count_from_argv:
  "(''-c'' \<notin> set (argv h) \<longrightarrow> num_clients_of (argv h) = Inr (PyInt 1))
   \<and> (argv h = pre @ ''-c'' # v # post \<and> ''-c'' \<notin> set (v # post) \<longrightarrow>
        num_clients_of (argv h) = Inr (PyStr v))
   \<and> (argv h \<noteq> [] \<and> last (argv h) = ''-c'' \<longrightarrow>
        num_clients_of (argv h) = Inl IndexError
        \<and> log_start_testrun h now s = (Some IndexError, s))
   \<and> (num_clients_of (argv h) = Inr n \<and> self_cur s = Open \<and> self_conn s = Open \<longrightarrow>
        take (Suc (length (db s))) (db (snd (log_start_testrun h now s)))
          = db s @ [(Insert_testrun (self_run_id s) (self_testplan s) (self_profile_name s) n
                       (self_rps s) (self_description s), server h (length (db s)))])"
proof -
  have a: "''-c'' \<notin> set (argv h) \<longrightarrow> num_clients_of (argv h) = Inr (PyInt 1)"
    unfolding num_clients_of_def by (simp add: scan_argv_absent)
  have b: "argv h = pre @ ''-c'' # v # post \<and> ''-c'' \<notin> set (v # post) \<longrightarrow>
        num_clients_of (argv h) = Inr (PyStr v)"
    unfolding num_clients_of_def
    using scan_argv_value [of "argv h" "[]" "argv h" 0 pre v post "PyInt 1"] by simp
  have c: "argv h \<noteq> [] \<and> last (argv h) = ''-c'' \<longrightarrow> num_clients_of (argv h) = Inl IndexError"
    unfolding num_clients_of_def
    using scan_argv_last [of "argv h" "[]" "argv h" 0 "PyInt 1"] by simp
  have c': "argv h \<noteq> [] \<and> last (argv h) = ''-c'' \<longrightarrow>
        log_start_testrun h now s = (Some IndexError, s)"
    using c by (simp add: log_start_testrun_def)
  have d: "num_clients_of (argv h) = Inr n \<and> self_cur s = Open \<and> self_conn s = Open \<longrightarrow>
        take (Suc (length (db s))) (db (snd (log_start_testrun h now s)))
          = db s @ [(Insert_testrun (self_run_id s) (self_testplan s) (self_profile_name s) n
                       (self_rps s) (self_description s), server h (length (db s)))]"
    by (auto simp: log_start_testrun_def cur_execute_def Let_def split: pg_result.splits)
  from a b c c' d show ?thesis by blast
qed

theorem client_count_from_argv_witness:
  "num_clients_of [''locust'', ''-c'', ''5'', ''-c'', ''many''] = Inr (PyStr ''many'')
   \<and> num_clients_of [''locust'', ''-c'', ''5'', ''-c''] = Inl IndexError
   \<and> num_clients_of [''locust''] = Inr (PyInt 1)
   \<and> db (snd (log_start_testrun standalone 8
             (fresh\<lparr>self_conn := Open, self_cur := Open, self_testplan := ''plan''\<rparr>)))
       = [(Insert_testrun 0 ''plan'' [] (PyStr ''20'') [] [], Pg_ok),
          (Insert_event 8 ''plan started'', Pg_ok)]"
  using client_count_from_argv
      [of "standalone\<lparr>argv := [''locust'', ''-c'', ''5'', ''-c'', ''many'']\<rparr>"
          "[''locust'', ''-c'', ''5'']" "''many''" "[]"]
    client_count_from_argv [of "standalone\<lparr>argv := [''locust'', ''-c'', ''5'', ''-c'']\<rparr>"]
    client_count_from_argv [of "standalone\<lparr>argv := [''locust'']\<rparr>"]
  by (simp add: standalone_def log_start_testrun_def num_clients_of_def cur_execute_def
      fresh_def Let_def)

subsection \<open>The report line\<close>

lemma logging_log_stop_test_run:
  "last (logging (log_stop_test_run h end_time s))
     = Log_info (report h (self_testplan s) (self_run_id s) end_time)"
  by (simp add: log_stop_test_run_def logging_info_def Let_def)

lemma logging_exit:
  "\<not> is_slave h \<Longrightarrow>
     last (logging (exit h end_time s))
       = Log_info (report h (self_testplan s) (self_run_id s) end_time)"
  by (simp add: exit_def Let_def close_handles_def logging_log_stop_test_run)

lemma py_int_of_int: "py_int (real_of_int n) = n"
  by (simp add: py_int_def)

lemma from_ms_whole_seconds:
  assumes r: "\<forall>n::int. \<bar>n\<bar> \<le> 2 ^ 53 \<longrightarrow> fround h (of_int n) = of_int n"
    and a: "\<bar>1000 * a\<bar> \<le> 2 ^ 53"
  shows "from_ms h (a * 1000000) = a * 1000"
proof -
  have "\<bar>a\<bar> \<le> 2 ^ 53" using a by simp
  then have t: "timestamp h (a * 1000000) = of_int a" using r by (simp add: timestamp_def)
  have "fround h (of_int a * 1000) = fround h (of_int (a * 1000))" by simp
  also have "\<dots> = of_int (a * 1000)"
  proof -
    have "\<bar>a * 1000\<bar> \<le> 2 ^ 53" using a by (simp add: mult.commute)
    with r show ?thesis by blast
  qed
  finally show ?thesis unfolding from_ms_def t by (simp only: py_int_of_int)
qed

lemma to_ms_whole_seconds:
  assumes r: "\<forall>n::int. \<bar>n\<bar> \<le> 2 ^ 53 \<longrightarrow> fround h (of_int n) = of_int n"
    and a: "\<bar>1000 * (b + 1)\<bar> \<le> 2 ^ 53"
  shows "to_ms h (b * 1000000) = (b + 1) * 1000"
proof -
  have "\<bar>b\<bar> \<le> 2 ^ 53" using a by simp
  then have t: "timestamp h (b * 1000000) = of_int b" using r by (simp add: timestamp_def)
  have "\<bar>b + 1\<bar> \<le> 2 ^ 53" using a by simp
  then have "fround h (of_int (b + 1)) = of_int (b + 1)" using r by blast
  then have u: "fround h (of_int b + 1) = of_int (b + 1)" by simp
  have "fround h (of_int (b + 1) * 1000) = fround h (of_int ((b + 1) * 1000))" by simp
  also have "\<dots> = of_int ((b + 1) * 1000)"
  proof -
    have "\<bar>(b + 1) * 1000\<bar> \<le> 2 ^ 53" using a by (simp add: mult.commute)
    with r show ?thesis by blast
  qed
  finally show ?thesis unfolding to_ms_def t u by (simp only: py_int_of_int)
qed

lemma from_ms_exact:
  assumes r: "\<forall>x. fround h x = x" and a: "0 \<le> a"
  shows "from_ms h a = a div 1000"
proof -
  have "real_of_int a / 1000000 * 1000 = real_of_int a / real_of_int 1000" by simp
  then have "\<lfloor>real_of_int a / 1000000 * 1000\<rfloor> = a div 1000"
    by (simp only: floor_divide_of_int_eq)
  then show ?thesis using r a by (simp add: from_ms_def timestamp_def py_int_def)
qed

lemma to_ms_exact:
  assumes r: "\<forall>x. fround h x = x" and a: "0 \<le> b"
  shows "to_ms h b = b div 1000 + 1000"
proof -
  have "(real_of_int b / 1000000 + 1) * 1000 = real_of_int (b + 1000000) / real_of_int 1000"
    by simp
  then have "\<lfloor>(real_of_int b / 1000000 + 1) * 1000\<rfloor> = (b + 1000000) div 1000"
    by (simp only: floor_divide_of_int_eq)
  then show ?thesis using r a by (simp add: to_ms_def timestamp_def py_int_def)
qed

text \<open>
  C7. The last message of \<^verbatim>\<open>log_stop_test_run\<close>, and so of the exit sequence of a
  coordinator, is the report line: the base URL, the test plan, \<^verbatim>\<open>from\<close> the integer
  part of the float product of the run id's timestamp and 1000, \<^verbatim>\<open>to\<close> the integer
  part of the float product of the end timestamp plus one and 1000. For timestamps T0
  and T1 of whole seconds the two numbers are T0 * 1000 and (T1 + 1) * 1000 under every
  rounding that keeps the integers up to 2 ^ 53 (that of IEEE doubles does); in exact
  arithmetic they are the milliseconds of the start and the milliseconds of the end
  plus 1000, for every time since the epoch.
\<close>

theorem report_url_window:
  "last (logging (log_stop_test_run h end_time s))
     = Log_info (''Report: '' @ GRAFANA_URL h @ ''&var-testplan='' @ self_testplan s
         @ ''&from='' @ str_int (from_ms h (self_run_id s))
         @ ''&to='' @ str_int (to_ms h end_time) @ [CHR 0x0A])
   \<and> (\<not> is_slave h \<longrightarrow>
        last (logging (exit h end_time s))
          = Log_info (report h (self_testplan s) (self_run_id s) end_time))
   \<and> ((\<forall>n::int. \<bar>n\<bar> \<le> 2 ^ 53 \<longrightarrow> fround h (of_int n) = of_int n)
        \<and> \<bar>1000 * T0\<bar> \<le> 2 ^ 53 \<and> \<bar>1000 * (T1 + 1)\<bar> \<le> 2 ^ 53 \<longrightarrow>
        from_ms h (T0 * 1000000) = T0 * 1000 \<and> to_ms h (T1 * 1000000) = (T1 + 1) * 1000)
   \<and> ((\<forall>x. fround h x = x) \<and> 0 \<le> t0 \<and> 0 \<le> t1 \<longrightarrow>
        from_ms h t0 = t0 div 1000 \<and> to_ms h t1 = t1 div 1000 + 1000)"
  using logging_log_stop_test_run [of h end_time s] logging_exit [of h end_time s]
    from_ms_whole_seconds [of h T0] to_ms_whole_seconds [of h T1]
    from_ms_exact [of h t0] to_ms_exact [of h t1]
  by (simp add: report_def)

theorem report_url_window_witness:
  "\<not> is_slave standalone
   \<and> from_ms standalone (5 * 1000000) = 5 * 1000
   \<and> to_ms standalone (9 * 1000000) = (9 + 1) * 1000
   \<and> last (logging (exit standalone (9 * 1000000)
        (fresh\<lparr>self_testplan := ''plan'', self_run_id := 5 * 1000000\<rparr>)))
       = Log_info (''Report: http://g/d?o=1&var-testplan=plan&from=5000&to=10000'' @ [CHR 0x0A])"
proof -
  have r: "\<forall>n::int. \<bar>n\<bar> \<le> 2 ^ 53 \<longrightarrow> fround standalone (of_int n) = of_int n"
    by (simp add: standalone_def)
  have s: "\<not> is_slave standalone"
    by (simp add: standalone_def is_slave_def)
  have w: "from_ms standalone (5 * 1000000) = 5 * 1000
        \<and> to_ms standalone (9 * 1000000) = (9 + 1) * 1000"
    using report_url_window [of standalone _ _ 5 9] r by simp
  have "last (logging (exit standalone (9 * 1000000)
        (fresh\<lparr>self_testplan := ''plan'', self_run_id := 5 * 1000000\<rparr>)))
       = Log_info (report standalone ''plan'' (5 * 1000000) (9 * 1000000))"
    using report_url_window
      [of standalone "9 * 1000000" "fresh\<lparr>self_testplan := ''plan'', self_run_id := 5 * 1000000\<rparr>"] s
    by simp
  moreover have "report standalone ''plan'' (5 * 1000000) (9 * 1000000)
       = ''Report: http://g/d?o=1&var-testplan=plan&from=5000&to=10000'' @ [CHR 0x0A]"
    unfolding report_def using w
    by (simp add: str_int_def str_nat.simps digit_char_def) (simp add: standalone_def)
  ultimately show ?thesis using s w by simp
qed

subsection \<open>What each method leaves alone\<close>

lemma write_samples_to_db_fields [simp]:
  "self_samples (write_samples_to_db h b s) = self_samples s"
  "self_finished (write_samples_to_db h b s) = self_finished s"
  "self_background (write_samples_to_db h b s) = self_background s"
  "self_conn (write_samples_to_db h b s) = self_conn s"
  "self_cur (write_samples_to_db h b s) = self_cur s"
  "self_run_id (write_samples_to_db h b s) = self_run_id s"
  "self_testplan (write_samples_to_db h b s) = self_testplan s"
  "self_hostname (write_samples_to_db h b s) = self_hostname s"
  "events_registered (write_samples_to_db h b s) = events_registered s"
  "atexit_registered (write_samples_to_db h b s) = atexit_registered s"
  "quitting_handler (write_samples_to_db h b s) = quitting_handler s"
  "terminated (write_samples_to_db h b s) = terminated s"
  by (simp_all add: write_samples_to_db_def cur_execute_def logging_error_def Let_def
      split: pg_result.splits)

lemma log_stop_test_run_fields [simp]:
  "self_samples (log_stop_test_run h t s) = self_samples s"
  "self_finished (log_stop_test_run h t s) = self_finished s"
  "self_background (log_stop_test_run h t s) = self_background s"
  "self_conn (log_stop_test_run h t s) = self_conn s"
  "self_cur (log_stop_test_run h t s) = self_cur s"
  "self_run_id (log_stop_test_run h t s) = self_run_id s"
  "self_testplan (log_stop_test_run h t s) = self_testplan s"
  "self_hostname (log_stop_test_run h t s) = self_hostname s"
  "events_registered (log_stop_test_run h t s) = events_registered s"
  "atexit_registered (log_stop_test_run h t s) = atexit_registered s"
  "quitting_handler (log_stop_test_run h t s) = quitting_handler s"
  "terminated (log_stop_test_run h t s) = terminated s"
  by (simp_all add: log_stop_test_run_def cur_execute_def logging_error_def logging_info_def
      Let_def split: pg_result.splits)

lemma exit_fields [simp]:
  "self_samples (exit h t s) = self_samples s"
  "self_finished (exit h t s) = self_finished s"
  "self_background (exit h t s) = self_background s"
  "self_run_id (exit h t s) = self_run_id s"
  "self_testplan (exit h t s) = self_testplan s"
  "self_hostname (exit h t s) = self_hostname s"
  "events_registered (exit h t s) = events_registered s"
  "atexit_registered (exit h t s) = atexit_registered s"
  "quitting_handler (exit h t s) = quitting_handler s"
  "terminated (exit h t s) = terminated s"
  by (simp_all add: exit_def close_handles_def Let_def)

lemma step_samples:
  "step h e s = Some s' \<Longrightarrow>
     concat (taken e s) @ self_samples s' = self_samples s @ sample_of e s"
  by (cases e)
     (auto simp: step_def taken_def drain_def flusher_resume_def request_success_def
        request_failure_def log_request_def quitting_to_join_def quitting_from_join_def
        split: if_splits greenlet.splits)

lemma run_samples:
  "run h evs s = Some s' \<Longrightarrow>
     concat (batches h evs s) @ self_samples s' = self_samples s @ appends h evs s"
proof (induction evs arbitrary: s)
  case Nil
  then show ?case by simp
next
  case (Cons e evs)
  then obtain s1 where s1: "step h e s = Some s1" and r: "run h evs s1 = Some s'"
    by (auto split: option.splits)
  have "concat (batches h (e # evs) s) @ self_samples s'
        = concat (taken e s) @ (concat (batches h evs s1) @ self_samples s')"
    using s1 by simp
  also have "\<dots> = concat (taken e s) @ self_samples s1 @ appends h evs s1"
    using Cons.IH[OF r] by simp
  also have "\<dots> = (self_samples s @ sample_of e s) @ appends h evs s1"
    using step_samples[OF s1] by simp
  finally show ?case using s1 by simp
qed

lemma run_append:
  "run h (a @ b) s = (case run h a s of None \<Rightarrow> None | Some s' \<Rightarrow> run h b s')"
  by (induction a arbitrary: s) (auto split: option.splits)

lemma db_write_samples:
  "db (write_samples_to_db h b s) = db s \<or> (\<exists>r. db (write_samples_to_db h b s) = db s @ [(Insert_request b, r)])"
  by (simp add: write_samples_to_db_def cur_execute_def logging_error_def Let_def split: pg_result.splits)

lemma counts_write_samples [simp]:
  "run_start_writes (write_samples_to_db h b s) = run_start_writes s"
  "run_end_writes (write_samples_to_db h b s) = run_end_writes s"
  using db_write_samples[of h b s] by (auto simp: run_start_writes_def run_end_writes_def)

lemma db_log_stop_open:
  "self_conn s = Open \<Longrightarrow> self_cur s = Open \<Longrightarrow>
     run_end_writes (log_stop_test_run h t s) = Suc (run_end_writes s)
   \<and> run_start_writes (log_stop_test_run h t s) = run_start_writes s"
  by (simp add: log_stop_test_run_def cur_execute_def logging_error_def logging_info_def Let_def
      run_end_writes_def run_start_writes_def split: pg_result.splits)

lemma db_log_stop_closed:
  "\<not> (self_conn s = Open \<and> self_cur s = Open) \<Longrightarrow> db (log_stop_test_run h t s) = db s"
  by (auto simp add: log_stop_test_run_def cur_execute_def logging_error_def logging_info_def Let_def)

lemma exit_open:
  "self_conn s = Open \<Longrightarrow> self_cur s = Open \<Longrightarrow>
     self_conn (exit h t s) = Closed \<and> self_cur (exit h t s) = Closed
   \<and> run_end_writes (exit h t s) = (if is_slave h then run_end_writes s else Suc (run_end_writes s))
   \<and> run_start_writes (exit h t s) = run_start_writes s"
  using db_log_stop_open[of s h t]
  by (simp add: exit_def close_handles_def Let_def run_end_writes_def run_start_writes_def)

lemma step_exit_called:
  "step h e s = Some s' \<Longrightarrow> exit_called s' = (exit_called s \<or> is_exit_event e)"
  by (cases e)
     (auto simp: step_def exit_called_def flusher_resume_def drain_def request_success_def
        request_failure_def log_request_def quitting_to_join_def quitting_from_join_def
        split: if_splits greenlet.splits)

lemma lifecycle_inv_eq:
  "atexit_registered s' = atexit_registered s \<Longrightarrow> quitting_handler s' = quitting_handler s \<Longrightarrow>
   terminated s' = terminated s \<Longrightarrow> self_conn s' = self_conn s \<Longrightarrow> self_cur s' = self_cur s \<Longrightarrow>
   db s' = db s \<or> run_end_writes s' = run_end_writes s \<Longrightarrow>
   lifecycle_inv h s' = lifecycle_inv h s"
  by (auto simp add: lifecycle_inv_def exit_called_def run_end_writes_def)

lemma flusher_resume_cases:
  "flusher_resume h s = Some s' \<Longrightarrow>
     s' = s\<lparr>self_samples := [], self_background := In_write (self_samples s)\<rparr>
   \<or> s' = s\<lparr>self_background := Dead\<rparr> \<or> s' = s
   \<or> (\<exists>b. s' = (write_samples_to_db h b s)\<lparr>self_background := At_loop\<rparr>)"
  by (auto simp: flusher_resume_def drain_def split: greenlet.splits if_splits)

lemma flusher_resume_lifecycle:
  assumes "flusher_resume h s = Some s'"
  shows "lifecycle_inv h s' = lifecycle_inv h s \<and> run_start_writes s' = run_start_writes s"
proof -
  from flusher_resume_cases[OF assms] consider
      "s' = s\<lparr>self_samples := [], self_background := In_write (self_samples s)\<rparr>"
    | "s' = s\<lparr>self_background := Dead\<rparr>" | "s' = s"
    | b where "s' = (write_samples_to_db h b s)\<lparr>self_background := At_loop\<rparr>" by blast
  then show ?thesis
  proof cases
    case 1
    have "lifecycle_inv h s' = lifecycle_inv h s"
      by (rule lifecycle_inv_eq) (simp_all add: 1)
    then show ?thesis by (simp add: 1 run_start_writes_def)
  next
    case 2
    have "lifecycle_inv h s' = lifecycle_inv h s"
      by (rule lifecycle_inv_eq) (simp_all add: 2)
    then show ?thesis by (simp add: 2 run_start_writes_def)
  next
    case 3
    then show ?thesis by simp
  next
    case 4
    have e: "run_end_writes s' = run_end_writes s" "run_start_writes s' = run_start_writes s"
      using counts_write_samples[of h b s] by (simp_all add: 4 run_end_writes_def run_start_writes_def)
    have "lifecycle_inv h s' = lifecycle_inv h s"
      by (rule lifecycle_inv_eq) (simp_all add: 4 e[unfolded 4])
    with e show ?thesis by simp
  qed
qed

lemma step_lifecycle:
  assumes st: "step h e s = Some s'" and inv: "lifecycle_inv h s"
  shows "lifecycle_inv h s' \<and> run_start_writes s' = run_start_writes s"
proof (cases e)
  case (Join_return t)
  from st Join_return have en: "quitting_handler s = Joining" "\<not> terminated s"
    and s': "s' = quitting_from_join h t s"
    by (auto simp: step_def split: if_splits)
  from en inv have op: "self_conn s = Open" "self_cur s = Open" "run_end_writes s = 0"
    and ax: "\<not> atexit_registered s"
    by (auto simp: lifecycle_inv_def exit_called_def)
  from exit_open[OF op(1,2), of h t] op(3) ax en show ?thesis
    by (simp add: s' quitting_from_join_def lifecycle_inv_def exit_called_def
        run_end_writes_def run_start_writes_def)
next
  case (At_exit t)
  from st At_exit have en: "atexit_registered s" "\<not> terminated s"
    and s': "s' = (exit h t s)\<lparr>terminated := True\<rparr>"
    by (auto simp: step_def split: if_splits)
  from en inv have q: "quitting_handler s = Idle"
    by (simp add: lifecycle_inv_def)
  with en inv have op: "self_conn s = Open" "self_cur s = Open" "run_end_writes s = 0"
    by (simp_all add: lifecycle_inv_def exit_called_def)
  from exit_open[OF op(1,2), of h t] op(3) q en show ?thesis
    by (simp add: s' lifecycle_inv_def exit_called_def
        run_end_writes_def run_start_writes_def)
next
  case Flusher_resume
  with st have "flusher_resume h s = Some s'" by (simp add: step_def split: if_splits)
  from flusher_resume_lifecycle[OF this] inv show ?thesis by simp
next
  case Quitting
  with st have en: "quitting_handler s = Idle" "\<not> terminated s" and s': "s' = quitting_to_join s"
    by (auto simp: step_def split: if_splits)
  with inv show ?thesis
    by (simp add: quitting_to_join_def lifecycle_inv_def exit_called_def
        run_end_writes_def run_start_writes_def)
next
  case (Success now ident rtype nm rtime rlength)
  with st have s': "s' = request_success now ident rtype nm rtime rlength s"
    by (auto simp: step_def split: if_splits)
  have "lifecycle_inv h s' = lifecycle_inv h s"
    by (rule lifecycle_inv_eq) (simp_all add: s' request_success_def log_request_def)
  with inv show ?thesis by (simp add: s' request_success_def log_request_def run_start_writes_def)
next
  case (Failure now ident rtype nm rtime exc)
  with st have s': "s' = request_failure now ident rtype nm rtime exc s"
    by (auto simp: step_def split: if_splits)
  have "lifecycle_inv h s' = lifecycle_inv h s"
    by (rule lifecycle_inv_eq) (simp_all add: s' request_failure_def log_request_def)
  with inv show ?thesis by (simp add: s' request_failure_def log_request_def run_start_writes_def)
qed

lemma run_lifecycle:
  "run h evs s = Some s' \<Longrightarrow> lifecycle_inv h s \<Longrightarrow>
     lifecycle_inv h s' \<and> run_start_writes s' = run_start_writes s
     \<and> exit_called s' = (exit_called s \<or> (\<exists>e\<in>set evs. is_exit_event e))"
proof (induction evs arbitrary: s)
  case Nil
  then show ?case by simp
next
  case (Cons e evs)
  then obtain s1 where s1: "step h e s = Some s1" and r: "run h evs s1 = Some s'"
    by (auto split: option.splits)
  from step_lifecycle[OF s1 Cons.prems(2)] step_exit_called[OF s1] Cons.IH[OF r]
  show ?case by auto
qed

lemma init_state:
  "init h plan pn d now now' fresh = (None, s0) \<Longrightarrow>
     self_conn s0 = Open \<and> self_cur s0 = Open \<and> self_background s0 = At_loop
   \<and> \<not> self_finished s0 \<and> quitting_handler s0 = Idle \<and> \<not> terminated s0
   \<and> atexit_registered s0 \<and> events_registered s0 \<and> self_samples s0 = []
   \<and> run_start_writes s0 = (if is_slave h then 0 else 1) \<and> run_end_writes s0 = 0"
  unfolding init_def
  by (auto simp: Let_def log_start_testrun_def cur_execute_def fresh_def
      run_start_writes_def run_end_writes_def
      split: option.splits pg_result.splits if_splits sum.splits prod.splits)

lemma step_dies:
  "step h e s = Some s' \<Longrightarrow> self_background s \<noteq> Dead \<Longrightarrow> self_background s' = Dead \<Longrightarrow>
     e = Flusher_resume \<and> self_background s = At_loop \<and> self_samples s = [] \<and> self_finished s"
  by (cases e)
     (auto simp: step_def flusher_resume_def drain_def request_success_def
        request_failure_def log_request_def quitting_to_join_def quitting_from_join_def
        split: if_splits greenlet.splits)

lemma step_finished:
  "step h e s = Some s' \<Longrightarrow> \<not> self_finished s \<Longrightarrow> self_finished s' \<Longrightarrow> e = Quitting"
  by (cases e)
     (auto simp: step_def flusher_resume_def drain_def request_success_def
        request_failure_def log_request_def quitting_to_join_def quitting_from_join_def
        split: if_splits greenlet.splits)

lemma run_finished:
  "run h evs s = Some s' \<Longrightarrow> \<not> self_finished s \<Longrightarrow> self_finished s' \<Longrightarrow>
     \<exists>pre mid. evs = pre @ Quitting # mid"
proof (induction evs arbitrary: s)
  case Nil
  then show ?case by simp
next
  case (Cons e evs)
  then obtain s1 where s1: "step h e s = Some s1" and r: "run h evs s1 = Some s'"
    by (auto split: option.splits)
  show ?case
  proof (cases "self_finished s1")
    case True
    with step_finished[OF s1 Cons.prems(2)] have "e = Quitting" by simp
    then have "e # evs = [] @ Quitting # evs" by simp
    then show ?thesis by blast
  next
    case False
    from Cons.IH[OF r False Cons.prems(3)] obtain pre mid where "evs = pre @ Quitting # mid" by blast
    then have "e # evs = (e # pre) @ Quitting # mid" by simp
    then show ?thesis by blast
  qed
qed

lemma run_dies:
  "run h evs s = Some s' \<Longrightarrow> self_background s \<noteq> Dead \<Longrightarrow> self_background s' = Dead \<Longrightarrow>
     \<exists>a b sa. evs = a @ Flusher_resume # b \<and> run h a s = Some sa
       \<and> self_background sa = At_loop \<and> self_samples sa = [] \<and> self_finished sa"
proof (induction evs arbitrary: s)
  case Nil
  then show ?case by simp
next
  case (Cons e evs)
  then obtain s1 where s1: "step h e s = Some s1" and r: "run h evs s1 = Some s'"
    by (auto split: option.splits)
  show ?case
  proof (cases "self_background s1 = Dead")
    case True
    from step_dies[OF s1 Cons.prems(2) True]
    have "e # evs = [] @ Flusher_resume # evs \<and> run h [] s = Some s
       \<and> self_background s = At_loop \<and> self_samples s = [] \<and> self_finished s" by simp
    then show ?thesis by blast
  next
    case False
    from Cons.IH[OF r False Cons.prems(3)] obtain a b sa where
      x: "evs = a @ Flusher_resume # b" "run h a s1 = Some sa"
        "self_background sa = At_loop" "self_samples sa = []" "self_finished sa" by blast
    then have "e # evs = (e # a) @ Flusher_resume # b \<and> run h (e # a) s = Some sa"
      using s1 by simp
    with x show ?thesis by blast
  qed
qed

subsection \<open>The two runs, computed\<close>

lemma started_value:
  "started = fresh\<lparr>self_conn := Open, self_cur := Open, self_testplan := ''plan'',
        self_hostname := ''gen1'', self_background := At_loop, self_run_id := 7000000,
        self_rps := ''0'',
        db := [(Insert_testrun 7000000 ''plan'' [] (PyStr ''20'') ''0'' [], Pg_ok),
               (Insert_event 7000001 ''plan started'', Pg_ok)],
        events_registered := True, atexit_registered := True\<rparr>"
  by (simp add: started_def init_standalone_value)

lemma init_started: "init standalone ''plan'' [] [] 7000000 7000001 fresh = (None, started)"
  by (simp add: started_value init_standalone_value)

lemmas run_defs = step_def request_success_def request_failure_def log_request_def
  flusher_resume_def drain_def write_samples_to_db_def cur_execute_def Let_def taken_def
  quitting_to_join_def

lemma run_two_drains:
  "run standalone two_drains started
     = Some (started\<lparr>db := db started @ [(Insert_request [sample_a, sample_b], Pg_ok),
                                          (Insert_request [sample_c], Pg_ok)]\<rparr>)"
  unfolding two_drains_def sample_a_def sample_b_def sample_c_def
  by (simp add: started_value fresh_def run_defs standalone_def new_sample_def)

lemma batches_two_drains:
  "batches standalone two_drains started = [[sample_a, sample_b], [sample_c]]"
  unfolding two_drains_def sample_a_def sample_b_def sample_c_def
  by (simp add: started_value fresh_def run_defs standalone_def new_sample_def)

subsection \<open>Appends and drains\<close>

text \<open>
  C1. A drain returns the whole buffer and leaves it empty, and the flusher drains
  whenever it is resumed at the head of its loop with a non-empty buffer. Along every
  run of the events of one process, the batches drained so far, one after the other and
  followed by what is still in the buffer, are the samples appended so far in the order
  of their appends (after what the buffer held at the start). So the same holds of the
  samples of each greenlet; whenever the buffer is empty the drained batches alone are
  the whole sequence of appends; and samples that differ are never drained twice.
\<close>

theorem drains_partition_appends:
  "fst (drain s) = self_samples s \<and> self_samples (snd (drain s)) = []
   \<and> (self_background s = At_loop \<and> self_samples s \<noteq> [] \<and> \<not> terminated s \<longrightarrow>
        step h Flusher_resume s
          = Some (s\<lparr>self_samples := [], self_background := In_write (self_samples s)\<rparr>))
   \<and> (run h evs s = Some s' \<longrightarrow>
        concat (batches h evs s) @ self_samples s' = self_samples s @ appends h evs s
        \<and> (\<forall>g. filter (\<lambda>x. greenlet_id x = g) (concat (batches h evs s) @ self_samples s')
                = filter (\<lambda>x. greenlet_id x = g) (self_samples s @ appends h evs s))
        \<and> (self_samples s = [] \<and> self_samples s' = [] \<longrightarrow>
             concat (batches h evs s) = appends h evs s)
        \<and> (distinct (self_samples s @ appends h evs s) \<longrightarrow>
             distinct (concat (batches h evs s))))"
proof -
  have a: "fst (drain s) = self_samples s \<and> self_samples (snd (drain s)) = []"
    by (simp add: drain_def)
  have b: "self_background s = At_loop \<and> self_samples s \<noteq> [] \<and> \<not> terminated s \<longrightarrow>
        step h Flusher_resume s
          = Some (s\<lparr>self_samples := [], self_background := In_write (self_samples s)\<rparr>)"
    by (simp add: step_def flusher_resume_def drain_def)
  have c: "run h evs s = Some s' \<longrightarrow>
        concat (batches h evs s) @ self_samples s' = self_samples s @ appends h evs s
        \<and> (\<forall>g. filter (\<lambda>x. greenlet_id x = g) (concat (batches h evs s) @ self_samples s')
                = filter (\<lambda>x. greenlet_id x = g) (self_samples s @ appends h evs s))
        \<and> (self_samples s = [] \<and> self_samples s' = [] \<longrightarrow>
             concat (batches h evs s) = appends h evs s)
        \<and> (distinct (self_samples s @ appends h evs s) \<longrightarrow>
             distinct (concat (batches h evs s)))"
  proof
    assume r: "run h evs s = Some s'"
    note e = run_samples[OF r]
    have d: "distinct (self_samples s @ appends h evs s) \<longrightarrow> distinct (concat (batches h evs s))"
    proof
      assume "distinct (self_samples s @ appends h evs s)"
      then have "distinct (concat (batches h evs s) @ self_samples s')" by (simp only: e)
      then show "distinct (concat (batches h evs s))" by simp
    qed
    have f: "\<forall>g. filter (\<lambda>x. greenlet_id x = g) (concat (batches h evs s) @ self_samples s')
                = filter (\<lambda>x. greenlet_id x = g) (self_samples s @ appends h evs s)"
      by (simp only: e) simp
    have g: "self_samples s = [] \<and> self_samples s' = [] \<longrightarrow>
             concat (batches h evs s) = appends h evs s"
      using e by auto
    from e d f g show "concat (batches h evs s) @ self_samples s' = self_samples s @ appends h evs s
        \<and> (\<forall>g. filter (\<lambda>x. greenlet_id x = g) (concat (batches h evs s) @ self_samples s')
                = filter (\<lambda>x. greenlet_id x = g) (self_samples s @ appends h evs s))
        \<and> (self_samples s = [] \<and> self_samples s' = [] \<longrightarrow>
             concat (batches h evs s) = appends h evs s)
        \<and> (distinct (self_samples s @ appends h evs s) \<longrightarrow>
             distinct (concat (batches h evs s)))" by blast
  qed
  from a b c show ?thesis by blast
qed

theorem drains_partition_appends_witness:
  "run standalone two_drains started
     = Some (started\<lparr>db := db started @ [(Insert_request [sample_a, sample_b], Pg_ok),
                                          (Insert_request [sample_c], Pg_ok)]\<rparr>)
   \<and> batches standalone two_drains started = [[sample_a, sample_b], [sample_c]]
   \<and> appends standalone two_drains started = [sample_a, sample_b, sample_c]
   \<and> filter (\<lambda>x. greenlet_id x = 1) (appends standalone two_drains started) = [sample_a, sample_c]"
proof -
  have s: "self_samples started = []" by (simp add: started_value fresh_def)
  from drains_partition_appends [of started standalone two_drains
      "started\<lparr>db := db started @ [(Insert_request [sample_a, sample_b], Pg_ok),
                                          (Insert_request [sample_c], Pg_ok)]\<rparr>"]
    run_two_drains s
  have "concat (batches standalone two_drains started) = appends standalone two_drains started"
    by simp
  then have "appends standalone two_drains started = [sample_a, sample_b, sample_c]"
    by (simp add: batches_two_drains)
  moreover have "greenlet_id sample_a = 1" "greenlet_id sample_b = 2" "greenlet_id sample_c = 1"
    by (simp_all add: sample_a_def sample_b_def sample_c_def new_sample_def)
  ultimately show ?thesis using run_two_drains batches_two_drains by simp
qed

subsection \<open>A write that fails\<close>

lemma write_failure:
  assumes "self_cur s = Open" "self_conn s = Open" "server h (length (db s)) = Pg_error e"
  shows "db (write_samples_to_db h batch s) = db s @ [(Insert_request batch, Pg_error e)]"
    and "logging (write_samples_to_db h batch s) = logging s
           @ [Log_error (''Failed to write samples to Postgresql timescale database: '' @ e)]"
  using assms by (simp_all add: write_samples_to_db_def cur_execute_def logging_error_def Let_def)

lemma write_open:
  assumes "self_cur s = Open" "self_conn s = Open"
  shows "db (write_samples_to_db h batch s)
           = db s @ [(Insert_request batch, server h (length (db s)))]"
  using assms
  by (simp add: write_samples_to_db_def cur_execute_def logging_error_def Let_def
      split: pg_result.splits)

text \<open>
  C8. Resumed inside a write, the flusher always comes back to the head of its loop,
  with the buffer as it was. When the server refuses the batch, the statement was sent
  once, the failure is logged, the batch is in no buffer afterwards, and the flusher is
  alive: with a later epoch in the buffer, its next two resumptions drain that epoch and
  send it as the next statement.
\<close>

theorem write_failure_drops_batch:
  "(self_background s = In_write batch \<and> \<not> terminated s \<longrightarrow>
      step h Flusher_resume s
        = Some ((write_samples_to_db h batch s)\<lparr>self_background := At_loop\<rparr>)
      \<and> self_samples (write_samples_to_db h batch s) = self_samples s)
   \<and> (self_background s = In_write batch \<and> \<not> terminated s
        \<and> self_cur s = Open \<and> self_conn s = Open
        \<and> server h (length (db s)) = Pg_error e \<longrightarrow>
        (\<exists>s1. step h Flusher_resume s = Some s1
           \<and> self_background s1 = At_loop
           \<and> self_samples s1 = self_samples s
           \<and> db s1 = db s @ [(Insert_request batch, Pg_error e)]
           \<and> logging s1 = logging s
                @ [Log_error (''Failed to write samples to Postgresql timescale database: '' @ e)]
           \<and> (self_samples s \<noteq> [] \<longrightarrow>
                (\<exists>s3. run h [Flusher_resume, Flusher_resume, Flusher_resume] s = Some s3
                   \<and> db s3 = db s1
                        @ [(Insert_request (self_samples s), server h (Suc (length (db s))))]
                   \<and> self_background s3 = At_loop \<and> self_samples s3 = []))))"
  by (auto simp: step_def flusher_resume_def drain_def write_failure write_open)

lemma in_write_value:
  "in_write = fresh\<lparr>self_conn := Open, self_cur := Open, self_testplan := ''plan'',
        self_hostname := ''gen1'', self_samples := [sample_c],
        self_background := In_write [sample_a], self_run_id := 7000000,
        self_rps := ''0'',
        db := [(Insert_testrun 7000000 ''plan'' [] (PyStr ''20'') ''0'' [], Pg_ok),
               (Insert_event 7000001 ''plan started'', Pg_ok)],
        events_registered := True, atexit_registered := True\<rparr>"
  by (simp add: in_write_def started_value)

theorem write_failure_drops_batch_witness:
  "self_background in_write = In_write [sample_a] \<and> self_samples in_write = [sample_c]
   \<and> server flaky (length (db in_write)) = Pg_error ''OperationalError()''
   \<and> run flaky [Flusher_resume, Flusher_resume, Flusher_resume] in_write
       = Some (in_write\<lparr>self_samples := [], self_background := At_loop,
            db := db in_write @ [(Insert_request [sample_a], Pg_error ''OperationalError()''),
                                 (Insert_request [sample_c], Pg_ok)],
            logging := [Log_error
              (''Failed to write samples to Postgresql timescale database: ''
                 @ ''OperationalError()'')]\<rparr>)"
proof -
  have h: "self_background in_write = In_write [sample_a]" "\<not> terminated in_write"
    "self_cur in_write = Open" "self_conn in_write = Open" "self_samples in_write = [sample_c]"
    "server flaky (length (db in_write)) = Pg_error ''OperationalError()''"
    "logging in_write = []"
    by (simp_all add: in_write_value fresh_def flaky_def standalone_def)
  from write_failure_drops_batch [of in_write "[sample_a]" flaky "''OperationalError()''"] h
  have ex: "\<exists>s3. run flaky [Flusher_resume, Flusher_resume, Flusher_resume] in_write = Some s3
      \<and> self_background s3 = At_loop \<and> self_samples s3 = []"
    by auto
  have "run flaky [Flusher_resume, Flusher_resume, Flusher_resume] in_write
       = Some (in_write\<lparr>self_samples := [], self_background := At_loop,
            db := db in_write @ [(Insert_request [sample_a], Pg_error ''OperationalError()''),
                                 (Insert_request [sample_c], Pg_ok)],
            logging := [Log_error
              (''Failed to write samples to Postgresql timescale database: ''
                 @ ''OperationalError()'')]\<rparr>)"
    by (simp add: in_write_value fresh_def run_defs flaky_def standalone_def logging_error_def)
  with h ex show ?thesis by simp
qed

subsection \<open>The exit sequence, twice\<close>

lemma close_handles_idem: "close_handles (close_handles s) = close_handles s"
  by (simp add: close_handles_def)

lemma exit_closes:
  "self_conn s \<noteq> Unset \<Longrightarrow> self_conn (exit h t s) = Closed \<and> self_cur (exit h t s) = Closed"
  by (simp add: exit_def close_handles_def Let_def)

lemma log_stop_closed:
  "self_conn s = Closed \<Longrightarrow>
     log_stop_test_run h t s
       = s\<lparr>logging := logging s @ [Log_error (stop_failed @ interface_error),
                                    Log_info (report h (self_testplan s) (self_run_id s) t)]\<rparr>"
  by (simp add: log_stop_test_run_def cur_execute_def logging_error_def logging_info_def)

lemma exit_closed:
  "self_conn s = Closed \<Longrightarrow> self_cur s = Closed \<Longrightarrow>
     exit h t s = (if is_slave h then s
                   else s\<lparr>logging := logging s @ [Log_error (stop_failed @ interface_error),
                                    Log_info (report h (self_testplan s) (self_run_id s) t)]\<rparr>)"
  by (simp add: exit_def log_stop_closed close_handles_def Let_def)

text \<open>
  C4, as the code has it. Closing twice is closing once. On a reporter that has a
  connection, a second call of the exit sequence leaves with no exception, sends nothing
  to the server and leaves the connection and the cursor closed. For a participant it
  changes nothing at all. For a coordinator it is not a no-op: \<^verbatim>\<open>exit\<close> calls
  \<^verbatim>\<open>log_stop_test_run\<close> again, whose update meets the closed cursor, so the failure is
  logged as an error and the report line is logged a second time.
\<close>

theorem second_exit:
  "close_handles (close_handles s) = close_handles s
   \<and> (self_conn s \<noteq> Unset \<longrightarrow>
        db (exit h t2 (exit h t1 s)) = db (exit h t1 s)
        \<and> self_conn (exit h t1 s) = Closed \<and> self_cur (exit h t1 s) = Closed
        \<and> self_conn (exit h t2 (exit h t1 s)) = Closed
        \<and> self_cur (exit h t2 (exit h t1 s)) = Closed
        \<and> (is_slave h \<longrightarrow> exit h t2 (exit h t1 s) = exit h t1 s)
        \<and> (\<not> is_slave h \<longrightarrow>
             exit h t2 (exit h t1 s)
               = (exit h t1 s)\<lparr>logging := logging (exit h t1 s)
                    @ [Log_error (stop_failed @ interface_error),
                       Log_info (report h (self_testplan s) (self_run_id s) t2)]\<rparr>))"
proof -
  have "self_conn s \<noteq> Unset \<longrightarrow>
        db (exit h t2 (exit h t1 s)) = db (exit h t1 s)
        \<and> self_conn (exit h t1 s) = Closed \<and> self_cur (exit h t1 s) = Closed
        \<and> self_conn (exit h t2 (exit h t1 s)) = Closed
        \<and> self_cur (exit h t2 (exit h t1 s)) = Closed
        \<and> (is_slave h \<longrightarrow> exit h t2 (exit h t1 s) = exit h t1 s)
        \<and> (\<not> is_slave h \<longrightarrow>
             exit h t2 (exit h t1 s)
               = (exit h t1 s)\<lparr>logging := logging (exit h t1 s)
                    @ [Log_error (stop_failed @ interface_error),
                       Log_info (report h (self_testplan s) (self_run_id s) t2)]\<rparr>)"
  proof
    assume a: "self_conn s \<noteq> Unset"
    from exit_closes[OF a, of h t1]
    have c: "self_conn (exit h t1 s) = Closed" "self_cur (exit h t1 s) = Closed" by auto
    show "db (exit h t2 (exit h t1 s)) = db (exit h t1 s)
        \<and> self_conn (exit h t1 s) = Closed \<and> self_cur (exit h t1 s) = Closed
        \<and> self_conn (exit h t2 (exit h t1 s)) = Closed
        \<and> self_cur (exit h t2 (exit h t1 s)) = Closed
        \<and> (is_slave h \<longrightarrow> exit h t2 (exit h t1 s) = exit h t1 s)
        \<and> (\<not> is_slave h \<longrightarrow>
             exit h t2 (exit h t1 s)
               = (exit h t1 s)\<lparr>logging := logging (exit h t1 s)
                    @ [Log_error (stop_failed @ interface_error),
                       Log_info (report h (self_testplan s) (self_run_id s) t2)]\<rparr>)"
      using c by (simp add: exit_closed[OF c])
  qed
  then show ?thesis by (simp add: close_handles_idem)
qed

lemma started_open: "self_conn started = Open" "self_cur started = Open"
  by (simp_all add: started_value fresh_def)

lemma standalone_role: "\<not> is_slave standalone" "is_slave slave"
  by (simp_all add: is_slave_def standalone_def slave_def)

theorem second_exit_witness:
  "self_conn started \<noteq> Unset \<and> is_slave slave \<and> \<not> is_slave standalone
   \<and> exit slave 9000000 (exit slave 8000000 started) = exit slave 8000000 started
   \<and> db (exit standalone 9000000 (exit standalone 8000000 started))
       = db (exit standalone 8000000 started)
   \<and> self_conn (exit standalone 9000000 (exit standalone 8000000 started)) = Closed
   \<and> logging (exit standalone 9000000 (exit standalone 8000000 started))
       = logging (exit standalone 8000000 started)
          @ [Log_error (stop_failed @ interface_error),
             Log_info (report standalone ''plan'' 7000000 9000000)]"
proof -
  have a: "self_conn started \<noteq> Unset" by (simp add: started_open)
  have f: "self_testplan started = ''plan''" "self_run_id started = 7000000"
    by (simp_all add: started_value fresh_def)
  from second_exit [of started slave 9000000 8000000] a standalone_role
  have s: "exit slave 9000000 (exit slave 8000000 started) = exit slave 8000000 started"
    by simp
  from second_exit [of started standalone 9000000 8000000] a standalone_role
  have c: "db (exit standalone 9000000 (exit standalone 8000000 started))
       = db (exit standalone 8000000 started)"
    "self_conn (exit standalone 9000000 (exit standalone 8000000 started)) = Closed"
    "exit standalone 9000000 (exit standalone 8000000 started)
       = (exit standalone 8000000 started)\<lparr>logging := logging (exit standalone 8000000 started)
            @ [Log_error (stop_failed @ interface_error),
               Log_info (report standalone (self_testplan started) (self_run_id started) 9000000)]\<rparr>"
    by simp_all
  have "logging (exit standalone 9000000 (exit standalone 8000000 started))
       = logging (exit standalone 8000000 started)
          @ [Log_error (stop_failed @ interface_error),
             Log_info (report standalone ''plan'' 7000000 9000000)]"
    by (subst c(3)) (simp add: f)
  with a s c standalone_role show ?thesis by simp
qed

text \<open>
  The claim as stated fails for the standalone reporter: the second call changes the
  state, and it logs an error that the first call did not log.
\<close>

theorem second_exit_counterexample:
  "exit standalone 9000000 (exit standalone 8000000 started) \<noteq> exit standalone 8000000 started
   \<and> Log_error (stop_failed @ interface_error)
       \<in> set (logging (exit standalone 9000000 (exit standalone 8000000 started)))
   \<and> Log_error (stop_failed @ interface_error)
       \<notin> set (logging (exit standalone 8000000 started))"
proof -
  have a: "self_conn started \<noteq> Unset" by (simp add: started_open)
  from exit_closes[OF a, of standalone 8000000]
  have c: "self_conn (exit standalone 8000000 started) = Closed"
    "self_cur (exit standalone 8000000 started) = Closed" by auto
  have l1: "logging (exit standalone 8000000 started)
      = [Log_info (report standalone ''plan'' 7000000 8000000)]"
    by (simp add: exit_def is_slave_def log_stop_test_run_def close_handles_def Let_def
        cur_execute_def logging_info_def started_value fresh_def standalone_def)
  have e: "exit standalone 9000000 (exit standalone 8000000 started)
      = (exit standalone 8000000 started)\<lparr>logging := logging (exit standalone 8000000 started)
           @ [Log_error (stop_failed @ interface_error),
              Log_info (report standalone (self_testplan (exit standalone 8000000 started))
                 (self_run_id (exit standalone 8000000 started)) 9000000)]\<rparr>"
    using exit_closed[OF c, of standalone 9000000] standalone_role by simp
  have n: "exit standalone 9000000 (exit standalone 8000000 started)
             \<noteq> exit standalone 8000000 started"
  proof
    assume "exit standalone 9000000 (exit standalone 8000000 started)
             = exit standalone 8000000 started"
    then have "logging (exit standalone 9000000 (exit standalone 8000000 started))
             = logging (exit standalone 8000000 started)" by simp
    then show False by (subst (asm) e) simp
  qed
  have m: "Log_error (stop_failed @ interface_error)
       \<in> set (logging (exit standalone 9000000 (exit standalone 8000000 started)))"
    by (subst e) simp
  have m': "Log_error (stop_failed @ interface_error)
       \<notin> set (logging (exit standalone 8000000 started))"
    by (simp add: l1)
  from n m m' show ?thesis by simp
qed

subsection \<open>Run records and the order of the shutdown\<close>

text \<open>
  C5. From a construction that succeeded, along every run of the events of the process:
  a participant has sent no run-start and no run-end statement; a coordinator has sent
  exactly one run-start statement, and no run-end statement until the exit sequence is
  called (by the quitting handler or by the exit hook), exactly one from then on.
\<close>

theorem run_record_writes:
  "init h plan pn d now now' fresh = (None, s0) \<Longrightarrow> run h evs s0 = Some s \<Longrightarrow>
     run_start_writes s = (if is_slave h then 0 else 1)
   \<and> run_end_writes s
       = (if is_slave h then 0 else if (\<exists>e\<in>set evs. is_exit_event e) then 1 else 0)"
proof -
  assume i: "init h plan pn d now now' fresh = (None, s0)" and r: "run h evs s0 = Some s"
  note s0 = init_state[OF i]
  from s0 have inv: "lifecycle_inv h s0" and nc: "\<not> exit_called s0"
    by (auto simp: lifecycle_inv_def exit_called_def)
  from run_lifecycle[OF r inv] nc s0 show ?thesis
    by (auto simp: lifecycle_inv_def split: if_splits)
qed

lemma run_shutdown:
  "run standalone (shutdown @ [Join_return 9000000]) started
     = Some (started\<lparr>self_conn := Closed, self_cur := Closed, self_finished := True,
          self_background := Dead,
          logging := [Log_info (report standalone ''plan'' 7000000 9000000)],
          db := db started @ [(Insert_request [sample_a], Pg_ok),
                              (Update_testrun_end 9000000 7000000, Pg_ok),
                              (Insert_event 9000000 ''plan finished'', Pg_ok)],
          atexit_registered := False, quitting_handler := Returned\<rparr>)"
  unfolding shutdown_def sample_a_def
  by (simp add: started_value fresh_def run_defs standalone_def new_sample_def
      quitting_from_join_def exit_def is_slave_def log_stop_test_run_def close_handles_def
      logging_info_def)

lemma init_slave_started:
  "init slave ''plan'' [] [] 7000000 7000001 fresh
     = (None, started\<lparr>self_run_id := 5000000, db := []\<rparr>)"
  unfolding init_slave_value by (simp add: started_value fresh_def)

lemma run_shutdown_slave:
  "run slave (shutdown @ [Join_return 9000000]) (started\<lparr>self_run_id := 5000000, db := []\<rparr>)
     = Some (started\<lparr>self_conn := Closed, self_cur := Closed, self_finished := True,
          self_background := Dead, self_run_id := 5000000,
          db := [(Insert_request [sample_a\<lparr>run_id := 5000000\<rparr>], Pg_ok)],
          atexit_registered := False, quitting_handler := Returned\<rparr>)"
  unfolding shutdown_def sample_a_def
  by (simp add: started_value fresh_def run_defs slave_def standalone_def new_sample_def
      quitting_from_join_def exit_def is_slave_def close_handles_def)

theorem run_record_writes_witness:
  "init standalone ''plan'' [] [] 7000000 7000001 fresh = (None, started)
   \<and> run standalone (shutdown @ [Join_return 9000000]) started \<noteq> None
   \<and> \<not> is_slave standalone
   \<and> run_start_writes (the (run standalone (shutdown @ [Join_return 9000000]) started)) = 1
   \<and> run_end_writes (the (run standalone (shutdown @ [Join_return 9000000]) started)) = 1
   \<and> run_start_writes (the (run standalone shutdown started)) = 1
   \<and> run_end_writes (the (run standalone shutdown started)) = 0
   \<and> is_slave slave
   \<and> run_start_writes (the (run slave (shutdown @ [Join_return 9000000])
         (started\<lparr>self_run_id := 5000000, db := []\<rparr>))) = 0
   \<and> run_end_writes (the (run slave (shutdown @ [Join_return 9000000])
         (started\<lparr>self_run_id := 5000000, db := []\<rparr>))) = 0"
proof -
  have r2: "run standalone shutdown started \<noteq> None"
    using run_shutdown by (auto simp: run_append split: option.splits)
  then obtain s2 where s2: "run standalone shutdown started = Some s2" by blast
  have ne: "\<not> (\<exists>e\<in>set shutdown. is_exit_event e)" by (simp add: shutdown_def)
  from run_record_writes [OF init_started run_shutdown]
    run_record_writes [OF init_started s2]
    run_record_writes [OF init_slave_started run_shutdown_slave]
    ne
  show ?thesis
    by (simp add: init_started run_shutdown run_shutdown_slave s2 standalone_role)
qed

text \<open>
  C6. Whenever the quitting handler comes back from \<^verbatim>\<open>join\<close> and calls the exit
  sequence, the run before it holds the quitting notification and, after it, a
  resumption of the flusher at the head of its loop that found \<^verbatim>\<open>_finished\<close> set and
  the buffer empty (it took no sample) and ended the greenlet; at the return of
  \<^verbatim>\<open>join\<close> the greenlet is dead and the handler was waiting.
\<close>

theorem quitting_waits_for_flusher:
  "init h plan pn d now now' fresh = (None, s0) \<Longrightarrow>
   run h (evs @ [Join_return t]) s0 = Some s \<Longrightarrow>
     \<exists>pre mid post sa sj.
        evs = pre @ Quitting # mid @ Flusher_resume # post
      \<and> run h (pre @ Quitting # mid) s0 = Some sa
      \<and> self_finished sa \<and> self_background sa = At_loop \<and> self_samples sa = []
      \<and> taken Flusher_resume sa = []
      \<and> step h Flusher_resume sa = Some (sa\<lparr>self_background := Dead\<rparr>)
      \<and> run h evs s0 = Some sj \<and> self_background sj = Dead \<and> quitting_handler sj = Joining
      \<and> s = quitting_from_join h t sj"
proof -
  assume i: "init h plan pn d now now' fresh = (None, s0)"
    and r: "run h (evs @ [Join_return t]) s0 = Some s"
  note s0 = init_state[OF i]
  from r obtain sj where sj: "run h evs s0 = Some sj" and j: "step h (Join_return t) sj = Some s"
    by (auto simp: run_append split: option.splits)
  from j have dead: "self_background sj = Dead" and jo: "quitting_handler sj = Joining"
    and nt: "\<not> terminated sj" and s: "s = quitting_from_join h t sj"
    by (auto simp: step_def split: if_splits)
  from s0 have alive: "self_background s0 \<noteq> Dead" by simp
  from run_dies[OF sj alive dead] obtain a b sa where
    x: "evs = a @ Flusher_resume # b" "run h a s0 = Some sa"
       "self_background sa = At_loop" "self_samples sa = []" "self_finished sa" by blast
  from s0 have nf: "\<not> self_finished s0" by simp
  from run_finished[OF x(2) nf x(5)] obtain pre mid where a: "a = pre @ Quitting # mid" by blast
  have nta: "\<not> terminated sa"
  proof
    assume "terminated sa"
    then have "step h Flusher_resume sa = None" by (simp add: step_def)
    with sj x(1,2) show False by (simp add: run_append)
  qed
  have st: "step h Flusher_resume sa = Some (sa\<lparr>self_background := Dead\<rparr>)"
    using x(3,4,5) nta by (simp add: step_def flusher_resume_def)
  have tk: "taken Flusher_resume sa = []" using x(4) by (simp add: taken_def)
  from x a st tk sj dead jo s show ?thesis by auto
qed

theorem quitting_waits_for_flusher_witness:
  "init standalone ''plan'' [] [] 7000000 7000001 fresh = (None, started)
   \<and> run standalone (shutdown @ [Join_return 9000000]) started \<noteq> None
   \<and> run standalone (shutdown @ [Join_return 9000000]) started
       = Some (quitting_from_join standalone 9000000 (the (run standalone shutdown started)))
   \<and> self_background (the (run standalone shutdown started)) = Dead
   \<and> (\<exists>pre mid post sa.
         shutdown = pre @ Quitting # mid @ Flusher_resume # post
       \<and> run standalone (pre @ Quitting # mid) started = Some sa
       \<and> self_finished sa \<and> self_samples sa = []
       \<and> step standalone Flusher_resume sa = Some (sa\<lparr>self_background := Dead\<rparr>))"
  using quitting_waits_for_flusher [OF init_started run_shutdown]
  by (auto simp: init_started run_shutdown)

end
